theory Spec2Isabelle
  imports Complex_Main "HOL-Library.Word" "HOL-Library.Signed_Division"
begin

section \<open>Machine values\<close>

text \<open>
  The firmware targets the ESP32, where both \<open>int\<close> and \<open>long\<close> are 32-bit two's
  complement integers. They are modelled as 32-bit words: \<open>+\<close>, \<open>-\<close> and \<open>*\<close> wrap
  around, \<open>sint\<close> reads the signed value, and the comparisons of the source are the
  signed comparisons \<open><s\<close> and \<open>\<le>s\<close>.
\<close>

type_synonym int32 = "32 word"
type_synonym uint8 = "8 word"

text \<open>
  C division truncates towards zero. The quotient is computed on the signed values and
  stored back into 32 bits.
\<close>

definition sdiv32 :: "int32 \<Rightarrow> int32 \<Rightarrow> int32" where
  "sdiv32 a b = word_of_int (sint a sdiv sint b)"

text \<open>
  A \<open>float\<close> is an IEEE-754 binary32 value. A finite value is represented by the real
  number it denotes, and the three special values are constructors of their own; the
  sign of a zero is not represented. Comparing two binary32 values is exact, so the
  ordering below is the ordering of the machine: every comparison with \<open>NaN\<close> is
  false.
\<close>

datatype float32 = NaN | NegInf | Finite real | PosInf

fun float_lt :: "float32 \<Rightarrow> float32 \<Rightarrow> bool" where
  "float_lt NaN _ = False"
| "float_lt _ NaN = False"
| "float_lt NegInf NegInf = False"
| "float_lt NegInf _ = True"
| "float_lt (Finite a) (Finite b) = (a < b)"
| "float_lt (Finite a) PosInf = True"
| "float_lt (Finite a) NegInf = False"
| "float_lt PosInf _ = False"

fun float_le :: "float32 \<Rightarrow> float32 \<Rightarrow> bool" where
  "float_le NaN _ = False"
| "float_le _ NaN = False"
| "float_le NegInf _ = True"
| "float_le (Finite a) (Finite b) = (a \<le> b)"
| "float_le (Finite a) PosInf = True"
| "float_le (Finite a) NegInf = False"
| "float_le PosInf PosInf = True"
| "float_le PosInf _ = False"

definition float_gt :: "float32 \<Rightarrow> float32 \<Rightarrow> bool" where
  "float_gt a b = float_lt b a"

definition float_ge :: "float32 \<Rightarrow> float32 \<Rightarrow> bool" where
  "float_ge a b = float_le b a"

definition isnan :: "float32 \<Rightarrow> bool" where
  "isnan x = (x = NaN)"

text \<open>
  Arithmetic on binary32 computes the exact result and rounds it to the nearest
  representable value, ties to the even significand. A binary32 value is an integer
  multiple of its unit in the last place, \<open>2 ^ (e - 23)\<close> for a value of magnitude
  from \<open>2 ^ e\<close> up to \<open>2 ^ (e + 1)\<close>, with \<open>e\<close> from \<open>-126\<close> to \<open>127\<close>; below
  \<open>2 ^ -126\<close> the unit stays \<open>2 ^ -149\<close> (subnormal values). \<open>find_exp\<close> searches the
  exponent from the top, counted from \<open>-126\<close>. A rounded magnitude of \<open>2 ^ 128\<close> or
  more overflows to an infinity.
\<close>

definition round_half_even :: "real \<Rightarrow> int" where
  "round_half_even q =
     (let n = \<lfloor>q\<rfloor>; f = q - of_int n
      in if f < 1 / 2 then n else if 1 / 2 < f then n + 1
         else if even n then n else n + 1)"

fun find_exp :: "nat \<Rightarrow> real \<Rightarrow> nat" where
  "find_exp 0 a = 0"
| "find_exp (Suc k) a = (if 2 ^ Suc k / 2 ^ 126 \<le> a then Suc k else find_exp k a)"

definition ulp32 :: "real \<Rightarrow> real" where
  "ulp32 x = 2 ^ find_exp 253 \<bar>x\<bar> / 2 ^ 149"

definition to_float32 :: "real \<Rightarrow> float32" where
  "to_float32 x =
     (let r = of_int (round_half_even (x / ulp32 x)) * ulp32 x
      in if 2 ^ 128 \<le> r then PosInf else if r \<le> - (2 ^ 128) then NegInf else Finite r)"

text \<open>
  Multiplication, division and addition with the special cases of IEEE-754. A zero
  divisor is taken as positive zero; the source divides by \<open>4095.0f\<close> only.
\<close>

fun fmul :: "float32 \<Rightarrow> float32 \<Rightarrow> float32" where
  "fmul (Finite a) (Finite b) = to_float32 (a * b)"
| "fmul NaN _ = NaN"
| "fmul _ NaN = NaN"
| "fmul (Finite a) PosInf = (if a = 0 then NaN else if 0 < a then PosInf else NegInf)"
| "fmul (Finite a) NegInf = (if a = 0 then NaN else if 0 < a then NegInf else PosInf)"
| "fmul PosInf (Finite b) = (if b = 0 then NaN else if 0 < b then PosInf else NegInf)"
| "fmul NegInf (Finite b) = (if b = 0 then NaN else if 0 < b then NegInf else PosInf)"
| "fmul PosInf PosInf = PosInf"
| "fmul PosInf NegInf = NegInf"
| "fmul NegInf PosInf = NegInf"
| "fmul NegInf NegInf = PosInf"

fun fdiv :: "float32 \<Rightarrow> float32 \<Rightarrow> float32" where
  "fdiv (Finite a) (Finite b) =
     (if b = 0 then (if a = 0 then NaN else if 0 < a then PosInf else NegInf)
      else to_float32 (a / b))"
| "fdiv NaN _ = NaN"
| "fdiv _ NaN = NaN"
| "fdiv (Finite a) _ = Finite 0"
| "fdiv PosInf (Finite b) = (if 0 \<le> b then PosInf else NegInf)"
| "fdiv NegInf (Finite b) = (if 0 \<le> b then NegInf else PosInf)"
| "fdiv _ _ = NaN"

fun fadd :: "float32 \<Rightarrow> float32 \<Rightarrow> float32" where
  "fadd (Finite a) (Finite b) = to_float32 (a + b)"
| "fadd NaN _ = NaN"
| "fadd _ NaN = NaN"
| "fadd PosInf NegInf = NaN"
| "fadd NegInf PosInf = NaN"
| "fadd PosInf _ = PosInf"
| "fadd NegInf _ = NegInf"
| "fadd _ PosInf = PosInf"
| "fadd _ NegInf = NegInf"

section \<open>config.h\<close>

definition SOIL_PIN :: uint8 where "SOIL_PIN = 34"
definition PH_PIN :: uint8 where "PH_PIN = 35"
definition LIGHT_PIN :: uint8 where "LIGHT_PIN = 32"
definition RAIN_PIN :: uint8 where "RAIN_PIN = 33"

definition PUMP_PIN :: uint8 where "PUMP_PIN = 26"
definition FERT_PIN :: uint8 where "FERT_PIN = 27"
definition LIGHT_RELAY_PIN :: uint8 where "LIGHT_RELAY_PIN = 25"
definition FAN_PIN :: uint8 where "FAN_PIN = 14"

definition SOIL_DRY_VALUE :: int32 where "SOIL_DRY_VALUE = 3200"
definition SOIL_WET_VALUE :: int32 where "SOIL_WET_VALUE = 1500"

text \<open>The literal \<open>3.3f\<close> is the binary32 value nearest to 3.3.\<close>

definition PH_SENSOR_VREF :: float32 where "PH_SENSOR_VREF = to_float32 (33 / 10)"
definition PH_OFFSET :: float32 where "PH_OFFSET = Finite 0"

definition SOIL_MOISTURE_LOW :: int32 where "SOIL_MOISTURE_LOW = 30"
definition SOIL_MOISTURE_HIGH :: int32 where "SOIL_MOISTURE_HIGH = 70"

definition TEMP_HIGH_THRESH :: float32 where "TEMP_HIGH_THRESH = Finite 35"
definition TEMP_LOW_THRESH :: float32 where "TEMP_LOW_THRESH = Finite 30"
definition HUMIDITY_HIGH_THRESH :: float32 where "HUMIDITY_HIGH_THRESH = Finite 85"

definition LIGHT_LOW_THRESH :: int32 where "LIGHT_LOW_THRESH = 300"
definition LIGHT_HIGH_THRESH :: int32 where "LIGHT_HIGH_THRESH = 500"

definition PH_LOW_THRESH :: float32 where "PH_LOW_THRESH = Finite (11 / 2)"
definition PH_HIGH_THRESH :: float32 where "PH_HIGH_THRESH = Finite 7"

definition RAIN_THRESHOLD :: int32 where "RAIN_THRESHOLD = 1000"

section \<open>sensors.h and actuators.h: the data\<close>

record SensorData =
  temperature :: float32
  humidity :: float32
  soilMoisture :: int32
  phValue :: float32
  lightLevel :: int32
  rainLevel :: int32
  isRaining :: bool
  valid :: bool

record ActuatorState =
  pumpOn :: bool
  fertOn :: bool
  lightOn :: bool
  fanOn :: bool

section \<open>Effects\<close>

text \<open>
  The functions write relay pins and print lines on the serial console. Both are kept
  as a trace of events, in the order the code performs them. The module-private
  variable \<open>state\<close> of actuators.cpp and the trace together are the machine that the
  functions transform.
\<close>

datatype level = LOW | HIGH

datatype event = DigitalWrite uint8 level | SerialPrintln string

record machine =
  state :: ActuatorState
  trace :: "event list"

definition emit :: "event \<Rightarrow> machine \<Rightarrow> machine" where
  "emit e m = m\<lparr>trace := trace m @ [e]\<rparr>"

text \<open>The static initialiser of \<open>state\<close>: every actuator off.\<close>

definition initial_state :: ActuatorState where
  "initial_state = \<lparr>pumpOn = False, fertOn = False, lightOn = False, fanOn = False\<rparr>"

section \<open>actuators.cpp\<close>

text \<open>Active-low relay: \<open>LOW\<close> switches the relay on.\<close>

definition relay_write :: "uint8 \<Rightarrow> bool \<Rightarrow> machine \<Rightarrow> machine" where
  "relay_write pin activate m = emit (DigitalWrite pin (if activate then LOW else HIGH)) m"

definition actuators_set_pump :: "bool \<Rightarrow> machine \<Rightarrow> machine" where
  "actuators_set_pump on m = relay_write PUMP_PIN on (m\<lparr>state := (state m)\<lparr>pumpOn := on\<rparr>\<rparr>)"

definition actuators_set_fert :: "bool \<Rightarrow> machine \<Rightarrow> machine" where
  "actuators_set_fert on m = relay_write FERT_PIN on (m\<lparr>state := (state m)\<lparr>fertOn := on\<rparr>\<rparr>)"

definition actuators_set_light :: "bool \<Rightarrow> machine \<Rightarrow> machine" where
  "actuators_set_light on m =
     relay_write LIGHT_RELAY_PIN on (m\<lparr>state := (state m)\<lparr>lightOn := on\<rparr>\<rparr>)"

definition actuators_set_fan :: "bool \<Rightarrow> machine \<Rightarrow> machine" where
  "actuators_set_fan on m = relay_write FAN_PIN on (m\<lparr>state := (state m)\<lparr>fanOn := on\<rparr>\<rparr>)"

definition actuators_get_state :: "machine \<Rightarrow> ActuatorState" where
  "actuators_get_state m = state m"

text \<open>
  The message printed for an invalid snapshot contains an en dash, three bytes in the
  UTF-8 source file.
\<close>

definition msg_invalid :: string where
  "msg_invalid = ''[ACTUATORS] Sensor data invalid '' @ [CHR 0xE2, CHR 0x80, CHR 0x93]
     @ '' skipping auto control''"

text \<open>The four rules of \<open>actuators_auto_control\<close>, in the order of the source.\<close>

definition pump_rule :: "SensorData \<Rightarrow> machine \<Rightarrow> machine" where
  "pump_rule data m =
     (if \<not> pumpOn (state m) \<and> soilMoisture data <s SOIL_MOISTURE_LOW \<and> \<not> isRaining data
      then emit (SerialPrintln ''[ACTUATORS] Water pump ON  (soil dry)'')
             (actuators_set_pump True m)
      else if pumpOn (state m) \<and> (SOIL_MOISTURE_HIGH <s soilMoisture data \<or> isRaining data)
      then emit (SerialPrintln ''[ACTUATORS] Water pump OFF (soil wet / raining)'')
             (actuators_set_pump False m)
      else m)"

definition fert_rule :: "SensorData \<Rightarrow> machine \<Rightarrow> machine" where
  "fert_rule data m =
     (if \<not> fertOn (state m) \<and> float_lt (phValue data) PH_LOW_THRESH
      then emit (SerialPrintln ''[ACTUATORS] Fertiliser pump ON  (pH low)'')
             (actuators_set_fert True m)
      else if fertOn (state m) \<and> float_gt (phValue data) PH_HIGH_THRESH
      then emit (SerialPrintln ''[ACTUATORS] Fertiliser pump OFF (pH OK)'')
             (actuators_set_fert False m)
      else m)"

definition light_rule :: "SensorData \<Rightarrow> machine \<Rightarrow> machine" where
  "light_rule data m =
     (if \<not> lightOn (state m) \<and> lightLevel data <s LIGHT_LOW_THRESH
      then emit (SerialPrintln ''[ACTUATORS] Grow-light ON  (low ambient light)'')
             (actuators_set_light True m)
      else if lightOn (state m) \<and> LIGHT_HIGH_THRESH <s lightLevel data
      then emit (SerialPrintln ''[ACTUATORS] Grow-light OFF (sufficient light)'')
             (actuators_set_light False m)
      else m)"

definition fan_rule :: "SensorData \<Rightarrow> machine \<Rightarrow> machine" where
  "fan_rule data m =
     (let highTemp = float_gt (temperature data) TEMP_HIGH_THRESH;
          highHumidity = float_gt (humidity data) HUMIDITY_HIGH_THRESH
      in if \<not> fanOn (state m) \<and> (highTemp \<or> highHumidity)
         then emit (SerialPrintln ''[ACTUATORS] Fan ON  (high temp/humidity)'')
                (actuators_set_fan True m)
         else if fanOn (state m) \<and> float_lt (temperature data) TEMP_LOW_THRESH
                   \<and> \<not> highHumidity
         then emit (SerialPrintln ''[ACTUATORS] Fan OFF (conditions normal)'')
                (actuators_set_fan False m)
         else m)"

text \<open>
  \<open>actuators_auto_control\<close> returns \<open>void\<close>: all it gives back is the machine it
  leaves behind.
\<close>

definition actuators_auto_control :: "SensorData \<Rightarrow> machine \<Rightarrow> machine" where
  "actuators_auto_control data m =
     (if \<not> valid data then emit (SerialPrintln msg_invalid) m
      else fan_rule data (light_rule data (fert_rule data (pump_rule data m))))"

text \<open>Consecutive policy cycles, one per snapshot, oldest first.\<close>

fun run_cycles :: "SensorData list \<Rightarrow> machine \<Rightarrow> machine" where
  "run_cycles [] m = m"
| "run_cycles (d # ds) m = run_cycles ds (actuators_auto_control d m)"

section \<open>sensors.cpp\<close>

text \<open>
  \<open>map\<close> and \<open>constrain\<close> are not defined in this repository: they come with the
  Arduino core that \<open>Arduino.h\<close> declares. \<open>map\<close> is the core's integer interpolation
  on \<open>long\<close>,
  \<open>(x - in_min) * (out_max - out_min) / (in_max - in_min) + out_min\<close>,
  and \<open>constrain(amt, low, high)\<close> is the macro
  \<open>amt < low ? low : (amt > high ? high : amt)\<close>.
  The calibration constants differ, so the divisor of \<open>map\<close> is never zero here.
\<close>

definition map_long :: "int32 \<Rightarrow> int32 \<Rightarrow> int32 \<Rightarrow> int32 \<Rightarrow> int32 \<Rightarrow> int32" where
  "map_long x in_min in_max out_min out_max =
     sdiv32 ((x - in_min) * (out_max - out_min)) (in_max - in_min) + out_min"

definition constrain :: "int32 \<Rightarrow> int32 \<Rightarrow> int32 \<Rightarrow> int32" where
  "constrain amt low high = (if amt <s low then low else if high <s amt then high else amt)"

definition soil_adc_to_percent :: "int32 \<Rightarrow> int32" where
  "soil_adc_to_percent rawAdc =
     (let percent = map_long rawAdc SOIL_DRY_VALUE SOIL_WET_VALUE 0 100
      in constrain percent 0 100)"

text \<open>\<open>constrain\<close> at type \<open>float\<close>.\<close>

definition constrain_float :: "float32 \<Rightarrow> float32 \<Rightarrow> float32 \<Rightarrow> float32" where
  "constrain_float amt low high =
     (if float_lt amt low then low else if float_gt amt high then high else amt)"

text \<open>
  \<open>ph_unclamped\<close> is the local variable \<open>ph\<close> of \<open>ph_adc_to_value\<close>: the raw count
  converted to \<open>float\<close>, times \<open>PH_SENSOR_VREF\<close>, divided by \<open>4095.0f\<close>, times
  \<open>3.5f\<close>, plus \<open>PH_OFFSET\<close>, every step rounded. \<open>ph_adc_to_value\<close> returns it
  constrained to the range 0 to 14.
\<close>

definition ph_unclamped :: "int32 \<Rightarrow> float32" where
  "ph_unclamped rawAdc =
     (let voltage =
            fdiv (fmul (to_float32 (of_int (sint rawAdc))) PH_SENSOR_VREF) (Finite 4095)
      in fadd (fmul (Finite (7 / 2)) voltage) PH_OFFSET)"

definition ph_adc_to_value :: "int32 \<Rightarrow> float32" where
  "ph_adc_to_value rawAdc = constrain_float (ph_unclamped rawAdc) (Finite 0) (Finite 14)"

text \<open>
  What the hardware delivers during one call of \<open>sensors_read\<close>: the two readings of
  the DHT22 and the value \<open>analogRead\<close> returns for each pin.
\<close>

record hardware =
  dht_readTemperature :: float32
  dht_readHumidity :: float32
  analogRead :: "uint8 \<Rightarrow> int32"

text \<open>
  \<open>sensors_read\<close> fills the caller's structure field by field and returns the flag.
  The result is the returned flag, the structure after the call and the lines printed.
  The pH conversion is the parameter \<open>ph_conv\<close>; the source calls \<open>ph_adc_to_value\<close>
  there. What is proved of \<open>sensors_read\<close> below holds for every conversion.
\<close>

definition sensors_read ::
  "(int32 \<Rightarrow> float32) \<Rightarrow> hardware \<Rightarrow> SensorData \<Rightarrow> bool \<times> SensorData \<times> event list" where
  "sensors_read ph_conv hw data0 =
     (let data1 = data0\<lparr>temperature := dht_readTemperature hw\<rparr>;
          data2 = data1\<lparr>humidity := dht_readHumidity hw\<rparr>
      in if isnan (temperature data2) \<or> isnan (humidity data2)
         then (False, data2\<lparr>valid := False\<rparr>, [SerialPrintln ''[SENSORS] DHT22 read failed''])
         else
           let soilRaw = analogRead hw SOIL_PIN;
               data3 = data2\<lparr>soilMoisture := soil_adc_to_percent soilRaw\<rparr>;
               phRaw = analogRead hw PH_PIN;
               data4 = data3\<lparr>phValue := ph_conv phRaw\<rparr>;
               data5 = data4\<lparr>lightLevel := analogRead hw LIGHT_PIN\<rparr>;
               data6 = data5\<lparr>rainLevel := analogRead hw RAIN_PIN\<rparr>;
               data7 = data6\<lparr>isRaining := (rainLevel data6 <s RAIN_THRESHOLD)\<rparr>;
               ok = ((float_gt (temperature data7) (Finite (- 40))
                        \<and> float_lt (temperature data7) (Finite 80))
                     \<and> (float_ge (humidity data7) (Finite 0)
                        \<and> float_le (humidity data7) (Finite 100))
                     \<and> (0 \<le>s soilMoisture data7 \<and> soilMoisture data7 \<le>s 100)
                     \<and> (float_ge (phValue data7) (Finite 0)
                        \<and> float_le (phValue data7) (Finite 14)))
           in (ok, data7\<lparr>valid := ok\<rparr>, []))"

section \<open>Sample inputs\<close>

text \<open>The machine right after start-up: every actuator off, nothing printed yet.\<close>

definition machine0 :: machine where
  "machine0 = \<lparr>state = initial_state, trace = []\<rparr>"

text \<open>
  A valid snapshot with the given temperature, humidity, soil moisture and rain flag;
  pH and light lie inside their dead zones.
\<close>

definition reading :: "real \<Rightarrow> real \<Rightarrow> int32 \<Rightarrow> bool \<Rightarrow> SensorData" where
  "reading t h soil rain =
     \<lparr>temperature = Finite t, humidity = Finite h, soilMoisture = soil, phValue = Finite 6,
      lightLevel = 400, rainLevel = (if rain then 500 else 3000), isRaining = rain,
      valid = True\<rparr>"

text \<open>A DHT22 whose temperature read fails.\<close>

definition dht_failure :: hardware where
  "dht_failure = \<lparr>dht_readTemperature = NaN, dht_readHumidity = Finite 50,
                   analogRead = (\<lambda>pin. 2000)\<rparr>"

section \<open>Basic facts\<close>

lemmas config_defs =
  SOIL_PIN_def PH_PIN_def LIGHT_PIN_def RAIN_PIN_def
  PUMP_PIN_def FERT_PIN_def LIGHT_RELAY_PIN_def FAN_PIN_def
  SOIL_DRY_VALUE_def SOIL_WET_VALUE_def SOIL_MOISTURE_LOW_def SOIL_MOISTURE_HIGH_def
  TEMP_HIGH_THRESH_def TEMP_LOW_THRESH_def HUMIDITY_HIGH_THRESH_def
  LIGHT_LOW_THRESH_def LIGHT_HIGH_THRESH_def PH_LOW_THRESH_def PH_HIGH_THRESH_def
  RAIN_THRESHOLD_def

lemmas setter_defs =
  actuators_set_pump_def actuators_set_fert_def actuators_set_light_def
  actuators_set_fan_def relay_write_def emit_def

text \<open>Each rule writes its own actuator and no other.\<close>

lemma pump_rule_frame:
  "fertOn (state (pump_rule d m)) = fertOn (state m)"
  "lightOn (state (pump_rule d m)) = lightOn (state m)"
  "fanOn (state (pump_rule d m)) = fanOn (state m)"
  by (simp_all add: pump_rule_def setter_defs)

lemma fert_rule_frame:
  "pumpOn (state (fert_rule d m)) = pumpOn (state m)"
  "lightOn (state (fert_rule d m)) = lightOn (state m)"
  "fanOn (state (fert_rule d m)) = fanOn (state m)"
  by (simp_all add: fert_rule_def setter_defs)

lemma light_rule_frame:
  "pumpOn (state (light_rule d m)) = pumpOn (state m)"
  "fertOn (state (light_rule d m)) = fertOn (state m)"
  "fanOn (state (light_rule d m)) = fanOn (state m)"
  by (simp_all add: light_rule_def setter_defs)

lemma fan_rule_frame:
  "pumpOn (state (fan_rule d m)) = pumpOn (state m)"
  "fertOn (state (fan_rule d m)) = fertOn (state m)"
  "lightOn (state (fan_rule d m)) = lightOn (state m)"
  by (simp_all add: fan_rule_def setter_defs Let_def)

lemma pump_rule_pump:
  "pumpOn (state (pump_rule d m)) =
     (if \<not> pumpOn (state m) \<and> soilMoisture d <s SOIL_MOISTURE_LOW \<and> \<not> isRaining d then True
      else if pumpOn (state m) \<and> (SOIL_MOISTURE_HIGH <s soilMoisture d \<or> isRaining d) then False
      else pumpOn (state m))"
  by (simp add: pump_rule_def setter_defs)

lemma fan_rule_fan:
  "fanOn (state (fan_rule d m)) =
     (if \<not> fanOn (state m) \<and> (float_gt (temperature d) TEMP_HIGH_THRESH
            \<or> float_gt (humidity d) HUMIDITY_HIGH_THRESH) then True
      else if fanOn (state m) \<and> float_lt (temperature d) TEMP_LOW_THRESH
            \<and> \<not> float_gt (humidity d) HUMIDITY_HIGH_THRESH then False
      else fanOn (state m))"
  by (simp add: fan_rule_def setter_defs Let_def)

lemma auto_control_pump:
  "valid d \<Longrightarrow> pumpOn (state (actuators_auto_control d m)) = pumpOn (state (pump_rule d m))"
  by (simp add: actuators_auto_control_def fan_rule_frame light_rule_frame fert_rule_frame)

lemma auto_control_fan:
  "valid d \<Longrightarrow> fanOn (state (actuators_auto_control d m)) = fanOn (state (fan_rule d m))"
  by (simp add: actuators_auto_control_def fan_rule_fan light_rule_frame fert_rule_frame
      pump_rule_frame)

text \<open>
  The source tests \<open>!highHumidity\<close>, the negation of \<open>humidity > 85\<close>. For a defined
  value that is \<open>humidity \<le> 85\<close>; for \<open>NaN\<close> it is not, since both comparisons are
  false there.
\<close>

lemma not_gt_iff_le: "\<not> isnan x \<Longrightarrow> (\<not> float_gt x (Finite c)) = float_le x (Finite c)"
  by (cases x) (simp_all add: float_gt_def isnan_def not_less)

text \<open>
  \<open>sensors_read\<close> never marks a snapshot valid whose temperature or humidity is
  \<open>NaN\<close>: the snapshots it hands to the policy as valid are numerically defined.
\<close>

lemma sensors_read_ok_defined:
  assumes "sensors_read ph_conv hw data0 = (True, data, out)"
  shows "valid data \<and> \<not> isnan (temperature data) \<and> \<not> isnan (humidity data)"
  using assms by (auto simp add: sensors_read_def Let_def split: if_splits)

section \<open>The policy on an invalid snapshot\<close>

text \<open>
  C1. For every snapshot whose \<open>valid\<close> flag is false, \<open>actuators_auto_control\<close>
  leaves the actuator state as it was: none of \<open>pumpOn\<close>, \<open>fertOn\<close>, \<open>lightOn\<close>,
  \<open>fanOn\<close> is modified.
\<close>

theorem invalid_snapshot_keeps_state:
  assumes "\<not> valid data"
  shows "state (actuators_auto_control data m) = state m"
  using assms by (simp add: actuators_auto_control_def emit_def)

text \<open>
  An invalid snapshot that is hot, humid and dry, so that a valid one would start the
  pump and the fan: the state stays all off.
\<close>

theorem invalid_snapshot_keeps_state_witness:
  "\<not> valid ((reading 36 90 10 False)\<lparr>valid := False\<rparr>)
   \<and> state (actuators_auto_control ((reading 36 90 10 False)\<lparr>valid := False\<rparr>) machine0)
       = initial_state"
  using invalid_snapshot_keeps_state [of "(reading 36 90 10 False)\<lparr>valid := False\<rparr>" machine0]
  by (simp add: reading_def machine0_def)

text \<open>
  C9 says that the skipped cycle is reported to the caller as a boolean result. The
  function returns \<open>void\<close>. What the caller can read back afterwards is the actuator
  state, and that is the same after a skipped cycle as after an evaluated cycle that
  found every reading inside its dead zone.
\<close>

theorem invalid_cycle_not_visible_to_caller:
  "\<not> valid ((reading 25 50 50 False)\<lparr>valid := False\<rparr>)
   \<and> valid (reading 25 50 50 False)
   \<and> actuators_get_state
        (actuators_auto_control ((reading 25 50 50 False)\<lparr>valid := False\<rparr>) machine0)
     = actuators_get_state (actuators_auto_control (reading 25 50 50 False) machine0)"
  by (simp add: reading_def machine0_def initial_state_def actuators_get_state_def
      actuators_auto_control_def pump_rule_def fert_rule_def light_rule_def fan_rule_def
      config_defs float_gt_def word_sless_alt emit_def)

text \<open>
  C9, as the code has it: on an invalid snapshot \<open>actuators_auto_control\<close> returns
  nothing to the caller; the only trace of the skipped cycle is one line on the serial
  console, and the rest of the machine is as before.
\<close>

theorem invalid_snapshot_logged_only:
  assumes "\<not> valid data"
  shows "actuators_auto_control data m = m\<lparr>trace := trace m @ [SerialPrintln msg_invalid]\<rparr>"
  using assms by (simp add: actuators_auto_control_def emit_def)

theorem invalid_snapshot_logged_only_witness:
  "\<not> valid ((reading 29 50 80 True)\<lparr>valid := False\<rparr>)
   \<and> actuators_auto_control ((reading 29 50 80 True)\<lparr>valid := False\<rparr>) machine0
     = \<lparr>state = initial_state, trace = [SerialPrintln msg_invalid]\<rparr>"
  using invalid_snapshot_logged_only [of "(reading 29 50 80 True)\<lparr>valid := False\<rparr>" machine0]
  by (simp add: reading_def machine0_def)

section \<open>The pump rule\<close>

text \<open>
  C2. For every valid snapshot and every prior state, one cycle turns the pump on
  exactly when it is off, the soil moisture is below \<open>SOIL_MOISTURE_LOW\<close> and it is not
  raining; it turns the pump off exactly when it is on and the soil moisture is above
  \<open>SOIL_MOISTURE_HIGH\<close> or it is raining; in every other case the pump is unchanged.
\<close>

theorem pump_cycle:
  assumes "valid data"
  shows "(\<not> pumpOn (state m) \<and> pumpOn (state (actuators_auto_control data m))
            \<longleftrightarrow> \<not> pumpOn (state m) \<and> soilMoisture data <s SOIL_MOISTURE_LOW
                  \<and> \<not> isRaining data)
       \<and> (pumpOn (state m) \<and> \<not> pumpOn (state (actuators_auto_control data m))
            \<longleftrightarrow> pumpOn (state m)
                  \<and> (SOIL_MOISTURE_HIGH <s soilMoisture data \<or> isRaining data))
       \<and> (\<not> (\<not> pumpOn (state m) \<and> soilMoisture data <s SOIL_MOISTURE_LOW \<and> \<not> isRaining data)
            \<and> \<not> (pumpOn (state m)
                  \<and> (SOIL_MOISTURE_HIGH <s soilMoisture data \<or> isRaining data))
          \<longrightarrow> pumpOn (state (actuators_auto_control data m)) = pumpOn (state m))"
  using assms by (auto simp add: auto_control_pump pump_rule_pump)

text \<open>
  Three cycles: dry soil starts the pump, wet soil stops a running pump, and soil in
  the dead zone leaves a running pump on.
\<close>

theorem pump_cycle_witness:
  "valid (reading 25 50 20 False) \<and> valid (reading 25 50 80 False)
   \<and> valid (reading 25 50 50 False)
   \<and> \<not> pumpOn (state machine0)
   \<and> pumpOn (state (actuators_auto_control (reading 25 50 20 False) machine0))
   \<and> \<not> pumpOn (state (actuators_auto_control (reading 25 50 80 False)
                     (actuators_set_pump True machine0)))
   \<and> pumpOn (state (actuators_auto_control (reading 25 50 50 False)
                     (actuators_set_pump True machine0)))"
  using pump_cycle [of "reading 25 50 20 False" machine0]
    pump_cycle [of "reading 25 50 80 False" "actuators_set_pump True machine0"]
    pump_cycle [of "reading 25 50 50 False" "actuators_set_pump True machine0"]
  by (simp add: reading_def machine0_def initial_state_def SOIL_MOISTURE_LOW_def
      SOIL_MOISTURE_HIGH_def word_sless_alt setter_defs)

text \<open>
  C4. After one cycle on a valid snapshot with \<open>isRaining\<close> true the pump is off,
  whatever it was before and however dry the soil is.
\<close>

theorem rain_forces_pump_off:
  assumes "valid data" and "isRaining data"
  shows "\<not> pumpOn (state (actuators_auto_control data m))"
  using assms by (simp add: auto_control_pump pump_rule_pump)

theorem rain_forces_pump_off_witness:
  "valid (reading 25 50 10 True) \<and> isRaining (reading 25 50 10 True)
   \<and> soilMoisture (reading 25 50 10 True) <s SOIL_MOISTURE_LOW
   \<and> \<not> pumpOn (state (actuators_auto_control (reading 25 50 10 True) machine0))
   \<and> \<not> pumpOn (state (actuators_auto_control (reading 25 50 10 True)
                     (actuators_set_pump True machine0)))"
  using rain_forces_pump_off [of "reading 25 50 10 True" machine0]
    rain_forces_pump_off [of "reading 25 50 10 True" "actuators_set_pump True machine0"]
  by (simp add: reading_def SOIL_MOISTURE_LOW_def word_sless_alt)

text \<open>
  C5 says that the pump never changes while the soil moisture stays strictly inside
  the dead zone. Rain stops a running pump there: one valid snapshot with soil moisture
  50 and \<open>isRaining\<close> true switches the pump off.
\<close>

theorem rain_in_dead_zone_stops_pump:
  "valid (reading 25 50 50 True)
   \<and> SOIL_MOISTURE_LOW <s soilMoisture (reading 25 50 50 True)
   \<and> soilMoisture (reading 25 50 50 True) <s SOIL_MOISTURE_HIGH
   \<and> pumpOn (state (actuators_set_pump True machine0))
   \<and> \<not> pumpOn (state (run_cycles [reading 25 50 50 True] (actuators_set_pump True machine0)))"
  by (simp add: reading_def machine0_def initial_state_def SOIL_MOISTURE_LOW_def
      SOIL_MOISTURE_HIGH_def word_sless_alt setter_defs auto_control_pump pump_rule_pump)

lemma dead_zone_step:
  assumes "valid d \<longrightarrow>
             SOIL_MOISTURE_LOW <s soilMoisture d \<and> soilMoisture d <s SOIL_MOISTURE_HIGH"
    and "pumpOn (state m) \<longrightarrow> valid d \<longrightarrow> \<not> isRaining d"
  shows "pumpOn (state (actuators_auto_control d m)) = pumpOn (state m)"
proof (cases "valid d")
  case False
  then show ?thesis by (simp add: actuators_auto_control_def emit_def)
next
  case True
  with assms have "\<not> soilMoisture d <s SOIL_MOISTURE_LOW"
    and "\<not> SOIL_MOISTURE_HIGH <s soilMoisture d"
    by (auto simp: word_sless_alt)
  with True assms(2) show ?thesis
    by (auto simp add: auto_control_pump pump_rule_pump)
qed

text \<open>
  C5, as the code has it: over any sequence of consecutive cycles whose valid snapshots
  all have the soil moisture strictly between \<open>SOIL_MOISTURE_LOW\<close> and
  \<open>SOIL_MOISTURE_HIGH\<close>, the pump keeps its state after every cycle of the sequence,
  provided the pump is off at the start or none of the valid snapshots reports rain.
  Invalid snapshots may occur anywhere in the sequence.
\<close>

theorem pump_dead_zone_steady:
  assumes "\<forall>d \<in> set ds. valid d \<longrightarrow>
             SOIL_MOISTURE_LOW <s soilMoisture d \<and> soilMoisture d <s SOIL_MOISTURE_HIGH"
    and "pumpOn (state m) \<longrightarrow> (\<forall>d \<in> set ds. valid d \<longrightarrow> \<not> isRaining d)"
  shows "\<forall>n \<le> length ds. pumpOn (state (run_cycles (take n ds) m)) = pumpOn (state m)"
  using assms
proof (induction ds arbitrary: m)
  case Nil
  then show ?case by simp
next
  case (Cons d ds)
  have step: "pumpOn (state (actuators_auto_control d m)) = pumpOn (state m)"
    using Cons.prems by (intro dead_zone_step) simp_all
  have rest: "\<forall>n \<le> length ds.
      pumpOn (state (run_cycles (take n ds) (actuators_auto_control d m)))
        = pumpOn (state (actuators_auto_control d m))"
    using Cons.prems step by (intro Cons.IH) simp_all
  show ?case
  proof (intro allI impI)
    fix n assume "n \<le> length (d # ds)"
    then show "pumpOn (state (run_cycles (take n (d # ds)) m)) = pumpOn (state m)"
      using rest step by (cases n) simp_all
  qed
qed

text \<open>
  A running pump and soil moisture going 31, 69, 50 without rain: the pump is still on
  at the end.
\<close>

theorem pump_dead_zone_steady_witness:
  "SOIL_MOISTURE_LOW <s soilMoisture (reading 25 50 31 False)
   \<and> soilMoisture (reading 25 50 31 False) <s SOIL_MOISTURE_HIGH
   \<and> SOIL_MOISTURE_LOW <s soilMoisture (reading 25 50 69 False)
   \<and> soilMoisture (reading 25 50 69 False) <s SOIL_MOISTURE_HIGH
   \<and> SOIL_MOISTURE_LOW <s soilMoisture (reading 25 50 50 False)
   \<and> soilMoisture (reading 25 50 50 False) <s SOIL_MOISTURE_HIGH
   \<and> valid (reading 25 50 31 False) \<and> \<not> isRaining (reading 25 50 31 False)
   \<and> valid (reading 25 50 69 False) \<and> \<not> isRaining (reading 25 50 69 False)
   \<and> valid (reading 25 50 50 False) \<and> \<not> isRaining (reading 25 50 50 False)
   \<and> pumpOn (state (actuators_set_pump True machine0))
   \<and> pumpOn (state (run_cycles
         [reading 25 50 31 False, reading 25 50 69 False, reading 25 50 50 False]
         (actuators_set_pump True machine0)))"
proof -
  let ?ds = "[reading 25 50 31 False, reading 25 50 69 False, reading 25 50 50 False]"
  let ?m = "actuators_set_pump True machine0"
  have h1: "\<forall>d \<in> set ?ds. valid d \<longrightarrow>
      SOIL_MOISTURE_LOW <s soilMoisture d \<and> soilMoisture d <s SOIL_MOISTURE_HIGH"
    by (simp add: reading_def SOIL_MOISTURE_LOW_def SOIL_MOISTURE_HIGH_def word_sless_alt)
  have h2: "\<forall>d \<in> set ?ds. valid d \<longrightarrow> \<not> isRaining d"
    by (simp add: reading_def)
  have on: "pumpOn (state ?m)"
    by (simp add: setter_defs)
  from pump_dead_zone_steady [of ?ds ?m, OF h1] h2
  have "\<forall>n \<le> length ?ds. pumpOn (state (run_cycles (take n ?ds) ?m)) = pumpOn (state ?m)"
    by blast
  then have "pumpOn (state (run_cycles (take (length ?ds) ?ds) ?m)) = pumpOn (state ?m)"
    by blast
  with on have "pumpOn (state (run_cycles ?ds ?m))" by simp
  with on show ?thesis
    by (simp add: reading_def SOIL_MOISTURE_LOW_def SOIL_MOISTURE_HIGH_def word_sless_alt)
qed

section \<open>The fan rule\<close>

text \<open>
  C3. For every valid snapshot and every prior state, one cycle turns the fan on
  exactly when it is off and the temperature is above \<open>TEMP_HIGH_THRESH\<close> or the
  humidity is above \<open>HUMIDITY_HIGH_THRESH\<close>, and turns it off exactly when it is on, the
  temperature is below \<open>TEMP_LOW_THRESH\<close> and the humidity is at most
  \<open>HUMIDITY_HIGH_THRESH\<close>. Starting with the fan off, the three cycles
  (36 degrees, 40 percent), (29, 90), (29, 50) give fan on, still on, off.
  A valid snapshot has a numerically defined humidity (\<open>sensors_read_ok_defined\<close>).
\<close>

theorem fan_cycle:
  "(valid data \<and> \<not> isnan (humidity data) \<longrightarrow>
      (\<not> fanOn (state m) \<and> fanOn (state (actuators_auto_control data m))
         \<longleftrightarrow> \<not> fanOn (state m) \<and> (float_gt (temperature data) TEMP_HIGH_THRESH
               \<or> float_gt (humidity data) HUMIDITY_HIGH_THRESH))
    \<and> (fanOn (state m) \<and> \<not> fanOn (state (actuators_auto_control data m))
         \<longleftrightarrow> fanOn (state m) \<and> float_lt (temperature data) TEMP_LOW_THRESH
               \<and> float_le (humidity data) HUMIDITY_HIGH_THRESH))
   \<and> (\<not> fanOn (state m0)
        \<and> valid d1 \<and> temperature d1 = Finite 36 \<and> humidity d1 = Finite 40
        \<and> valid d2 \<and> temperature d2 = Finite 29 \<and> humidity d2 = Finite 90
        \<and> valid d3 \<and> temperature d3 = Finite 29 \<and> humidity d3 = Finite 50 \<longrightarrow>
      fanOn (state (run_cycles [d1] m0))
    \<and> fanOn (state (run_cycles [d1, d2] m0))
    \<and> \<not> fanOn (state (run_cycles [d1, d2, d3] m0)))"
proof (intro conjI impI)
  assume a: "valid data \<and> \<not> isnan (humidity data)"
  then have le: "(\<not> float_gt (humidity data) HUMIDITY_HIGH_THRESH)
                   = float_le (humidity data) HUMIDITY_HIGH_THRESH"
    unfolding HUMIDITY_HIGH_THRESH_def by (simp add: not_gt_iff_le)
  from a show "\<not> fanOn (state m) \<and> fanOn (state (actuators_auto_control data m))
         \<longleftrightarrow> \<not> fanOn (state m) \<and> (float_gt (temperature data) TEMP_HIGH_THRESH
               \<or> float_gt (humidity data) HUMIDITY_HIGH_THRESH)"
    by (auto simp add: auto_control_fan fan_rule_fan)
  from a le show "fanOn (state m) \<and> \<not> fanOn (state (actuators_auto_control data m))
         \<longleftrightarrow> fanOn (state m) \<and> float_lt (temperature data) TEMP_LOW_THRESH
               \<and> float_le (humidity data) HUMIDITY_HIGH_THRESH"
    by (auto simp add: auto_control_fan fan_rule_fan)
next
  assume s: "\<not> fanOn (state m0)
        \<and> valid d1 \<and> temperature d1 = Finite 36 \<and> humidity d1 = Finite 40
        \<and> valid d2 \<and> temperature d2 = Finite 29 \<and> humidity d2 = Finite 90
        \<and> valid d3 \<and> temperature d3 = Finite 29 \<and> humidity d3 = Finite 50"
  then show "fanOn (state (run_cycles [d1] m0))"
    by (simp add: auto_control_fan fan_rule_fan float_gt_def TEMP_HIGH_THRESH_def)
  from s show "fanOn (state (run_cycles [d1, d2] m0))"
    by (simp add: auto_control_fan fan_rule_fan float_gt_def TEMP_HIGH_THRESH_def
        TEMP_LOW_THRESH_def HUMIDITY_HIGH_THRESH_def)
  from s show "\<not> fanOn (state (run_cycles [d1, d2, d3] m0))"
    by (simp add: auto_control_fan fan_rule_fan float_gt_def TEMP_HIGH_THRESH_def
        TEMP_LOW_THRESH_def HUMIDITY_HIGH_THRESH_def)
qed

text \<open>
  A running fan is switched off at 29 degrees and 50 percent; and the three-cycle run
  from the start-up machine.
\<close>

theorem fan_cycle_witness:
  "valid (reading 29 50 50 False) \<and> \<not> isnan (humidity (reading 29 50 50 False))
   \<and> fanOn (state (actuators_set_fan True machine0))
   \<and> \<not> fanOn (state (actuators_auto_control (reading 29 50 50 False)
                     (actuators_set_fan True machine0)))
   \<and> \<not> fanOn (state machine0)
   \<and> fanOn (state (run_cycles [reading 36 40 50 False] machine0))
   \<and> fanOn (state (run_cycles [reading 36 40 50 False, reading 29 90 50 False] machine0))
   \<and> \<not> fanOn (state (run_cycles [reading 36 40 50 False, reading 29 90 50 False,
                                   reading 29 50 50 False] machine0))"
  using fan_cycle [of "reading 29 50 50 False" "actuators_set_fan True machine0" machine0
      "reading 36 40 50 False" "reading 29 90 50 False" "reading 29 50 50 False"]
  by (simp add: reading_def machine0_def initial_state_def isnan_def setter_defs
      TEMP_LOW_THRESH_def HUMIDITY_HIGH_THRESH_def)

section \<open>Soil calibration\<close>

text \<open>
  C7. \<open>soil_adc_to_percent\<close> maps the dry calibration value to 0 and the wet
  calibration value to 100, and for every raw input its result lies between 0 and 100.
\<close>

theorem soil_percent_endpoints_and_range:
  "soil_adc_to_percent SOIL_DRY_VALUE = 0
   \<and> soil_adc_to_percent SOIL_WET_VALUE = 100
   \<and> (\<forall>raw. 0 \<le>s soil_adc_to_percent raw \<and> soil_adc_to_percent raw \<le>s 100)"
proof (intro conjI allI)
  show "soil_adc_to_percent SOIL_DRY_VALUE = 0" by code_simp
  show "soil_adc_to_percent SOIL_WET_VALUE = 100" by code_simp
next
  fix raw
  show "0 \<le>s soil_adc_to_percent raw"
    by (simp add: soil_adc_to_percent_def constrain_def Let_def word_sle_eq word_sless_alt)
  show "soil_adc_to_percent raw \<le>s 100"
    by (simp add: soil_adc_to_percent_def constrain_def Let_def word_sle_eq word_sless_alt)
qed

text \<open>
  C8 says that the percentage never drops as the raw value decreases, for every pair of
  raw inputs. The product \<open>(raw - 3200) * 100\<close> is computed in 32 bits: at
  \<open>raw = -21471637\<close> it is \<open>-2147483700\<close>, below the least 32-bit value, and wraps to
  a positive number. The quotient is then negative and is clamped to 0, although the
  wet calibration value 1500, which is larger, gives 100.
\<close>

theorem soil_percent_overflow_not_monotone:
  "(- 21471637 :: int32) \<le>s 1500
   \<and> soil_adc_to_percent 1500 = 100
   \<and> soil_adc_to_percent (- 21471637) = 0
   \<and> \<not> soil_adc_to_percent 1500 \<le>s soil_adc_to_percent (- 21471637)"
  by code_simp

text \<open>Truncating division by the negative span reverses the order.\<close>

lemma tdiv_antimono: "k1 \<le> k2 \<Longrightarrow> k2 sdiv (- 1700 :: int) \<le> k1 sdiv (- 1700)"
proof -
  assume le: "k1 \<le> k2"
  consider "0 \<le> k1" | "k2 < 0" | "k1 < 0" "0 \<le> k2" by linarith
  then have "sgn k1 * (\<bar>k1\<bar> div 1700) \<le> sgn k2 * (\<bar>k2\<bar> div 1700)"
  proof cases
    case 1
    with le have "0 \<le> k2" by simp
    with 1 le show ?thesis
      by (cases "k1 = 0"; cases "k2 = 0") (simp_all add: zdiv_mono1)
  next
    case 2
    with le have "k1 < 0" by simp
    with 2 le have "\<bar>k2\<bar> div 1700 \<le> \<bar>k1\<bar> div 1700"
      by (intro zdiv_mono1) simp_all
    with 2 \<open>k1 < 0\<close> show ?thesis by simp
  next
    case 3
    have "sgn k1 * (\<bar>k1\<bar> div 1700) \<le> 0"
      using 3(1) by (simp add: pos_imp_zdiv_nonneg_iff)
    moreover have "0 \<le> sgn k2 * (\<bar>k2\<bar> div 1700)"
      using 3(2) by (cases "k2 = 0") (simp_all add: pos_imp_zdiv_nonneg_iff)
    ultimately show ?thesis by linarith
  qed
  then show ?thesis by (simp add: signed_divide_int_def)
qed

lemma tdiv_bound:
  assumes "- 2147483600 \<le> (k::int)" "k \<le> 2147483600"
  shows "- 1263226 \<le> k sdiv (- 1700) \<and> k sdiv (- 1700) \<le> 1263226"
proof -
  have a: "(2147483600 :: int) sdiv (- 1700) = - 1263225"
    by (simp add: signed_divide_int_def)
  have b: "(- 2147483600 :: int) sdiv (- 1700) = 1263225"
    by (simp add: signed_divide_int_def)
  from tdiv_antimono [OF assms(1)] tdiv_antimono [OF assms(2)] a b show ?thesis by simp
qed

lemma sint_sdiv32:
  assumes "- 2147483648 \<le> sint a sdiv sint b" "sint a sdiv sint b \<le> 2147483647"
  shows "sint (sdiv32 a b) = sint a sdiv sint b"
  using assms by (simp add: sdiv32_def signed_of_int signed_take_bit_int_eq_self)

text \<open>
  Where the product does not overflow, the conversion is the clamped, truncated
  interpolation on the signed values.
\<close>

lemma sint_soil:
  assumes lo: "- 21471636 \<le> sint raw" and hi: "sint raw \<le> 21478036"
  shows "sint (soil_adc_to_percent raw)
     = max 0 (min 100 (((sint raw - 3200) * 100) sdiv (- 1700)))"
proof -
  define delta where "delta = raw - SOIL_DRY_VALUE"
  define prod where "prod = delta * (100 - 0)"
  define run where "run = SOIL_WET_VALUE - SOIL_DRY_VALUE"
  define K where "K = (sint raw - 3200) * 100"
  define Q where "Q = K sdiv (- 1700)"
  have d: "sint delta = sint raw - 3200"
    unfolding delta_def SOIL_DRY_VALUE_def
    using lo hi by (simp add: sint_word_diff signed_take_bit_int_eq_self)
  have "sint prod = signed_take_bit 31 (sint delta * 100)"
    unfolding prod_def using sint_word_mult [of delta 100] by simp
  also have "\<dots> = signed_take_bit 31 K"
    by (simp only: d K_def)
  also have "\<dots> = K"
    using lo hi by (intro signed_take_bit_int_eq_self) (simp_all add: K_def)
  finally have p: "sint prod = K" .
  have r: "sint run = - 1700"
    unfolding run_def by (simp add: config_defs)
  have "- 2147483600 \<le> K" "K \<le> 2147483600"
    using lo hi by (simp_all add: K_def)
  then have b: "- 1263226 \<le> Q \<and> Q \<le> 1263226"
    unfolding Q_def by (rule tdiv_bound)
  have "sint prod sdiv sint run = Q"
    by (simp only: p r Q_def)
  with b sint_sdiv32 [of prod run] have q: "sint (sdiv32 prod run) = Q"
    by simp
  have "soil_adc_to_percent raw = constrain (sdiv32 prod run + 0) 0 100"
    by (simp only: soil_adc_to_percent_def map_long_def Let_def prod_def delta_def run_def)
  then have "sint (soil_adc_to_percent raw) = max 0 (min 100 Q)"
    using q by (simp add: constrain_def word_sless_alt max_def min_def)
  then show ?thesis by (simp only: Q_def K_def)
qed

text \<open>
  C8, as the code has it: on the raw inputs from \<open>-21471636\<close> to \<open>21478036\<close>, those
  whose product \<open>(raw - 3200) * 100\<close> fits 32 bits, the percentage never drops as the
  raw value decreases. Every reading of the 12-bit converter, 0 to 4095, is in that
  range.
\<close>

theorem soil_percent_monotone_in_range:
  assumes "- 21471636 \<le>s raw2" and "raw2 \<le>s raw1" and "raw1 \<le>s 21478036"
  shows "soil_adc_to_percent raw1 \<le>s soil_adc_to_percent raw2"
proof -
  have b: "- 21471636 \<le> sint raw2" "sint raw2 \<le> sint raw1" "sint raw1 \<le> 21478036"
    using assms by (simp_all add: word_sle_eq)
  then have b1: "- 21471636 \<le> sint raw1" and b2: "sint raw2 \<le> 21478036" by linarith+
  have "(sint raw2 - 3200) * 100 \<le> (sint raw1 - 3200) * 100" using b by simp
  from tdiv_antimono [OF this] show ?thesis
    by (simp add: word_sle_eq sint_soil b b1 b2 max_def min_def)
qed

text \<open>The two ends of the converter's range, and two readings in between.\<close>

theorem soil_percent_monotone_in_range_witness:
  "(- 21471636 :: int32) \<le>s 0 \<and> (0 :: int32) \<le>s 4095 \<and> (4095 :: int32) \<le>s 21478036
   \<and> soil_adc_to_percent 4095 \<le>s soil_adc_to_percent 0
   \<and> (- 21471636 :: int32) \<le>s 2000 \<and> (2000 :: int32) \<le>s 3000
   \<and> (3000 :: int32) \<le>s 21478036
   \<and> soil_adc_to_percent 3000 \<le>s soil_adc_to_percent 2000"
proof -
  have h: "(- 21471636 :: int32) \<le>s 0" "(0 :: int32) \<le>s 4095"
    "(4095 :: int32) \<le>s 21478036" "(- 21471636 :: int32) \<le>s 2000"
    "(2000 :: int32) \<le>s 3000" "(3000 :: int32) \<le>s 21478036"
    by (simp_all add: word_sle_eq)
  from soil_percent_monotone_in_range [OF h(1) h(2) h(3)]
    soil_percent_monotone_in_range [OF h(4) h(5) h(6)] h
  show ?thesis by blast
qed

section \<open>pH calibration\<close>

lemma to_float32_not_nan: "to_float32 x \<noteq> NaN"
  by (simp add: to_float32_def Let_def)

lemma fmul_right_not_nan: "a \<noteq> NaN \<Longrightarrow> c \<noteq> 0 \<Longrightarrow> fmul a (Finite c) \<noteq> NaN"
  by (cases a) (simp_all add: to_float32_not_nan)

lemma fmul_left_not_nan: "a \<noteq> NaN \<Longrightarrow> c \<noteq> 0 \<Longrightarrow> fmul (Finite c) a \<noteq> NaN"
  by (cases a) (simp_all add: to_float32_not_nan)

lemma fdiv_not_nan: "a \<noteq> NaN \<Longrightarrow> c \<noteq> 0 \<Longrightarrow> fdiv a (Finite c) \<noteq> NaN"
  by (cases a) (simp_all add: to_float32_not_nan)

lemma fadd_not_nan: "a \<noteq> NaN \<Longrightarrow> fadd a (Finite c) \<noteq> NaN"
  by (cases a) (simp_all add: to_float32_not_nan)

text \<open>Rounding a value whose exponent is known.\<close>

lemma find_exp_eq:
  assumes "k \<le> n" and "2 ^ k / 2 ^ 126 \<le> a" and "a < 2 ^ Suc k / 2 ^ 126"
  shows "find_exp n a = k"
  using assms
proof (induction n)
  case 0
  then show ?case by simp
next
  case (Suc n)
  show ?case
  proof (cases "k = Suc n")
    case True
    with Suc.prems show ?thesis by simp
  next
    case False
    with Suc.prems have kn: "k \<le> n" by simp
    then have "Suc k \<le> Suc n" by simp
    then have "(2::real) ^ Suc k \<le> 2 ^ Suc n"
      by (intro power_increasing) simp_all
    then have "(2::real) ^ Suc k / 2 ^ 126 \<le> 2 ^ Suc n / 2 ^ 126"
      by (simp add: divide_right_mono)
    with Suc.prems(3) have "\<not> 2 ^ Suc n / 2 ^ 126 \<le> a" by linarith
    with Suc.IH [OF kn Suc.prems(2) Suc.prems(3)] show ?thesis by simp
  qed
qed

lemma to_float32_eval:
  assumes k: "k \<le> 253"
    and lo: "2 ^ k / 2 ^ 126 \<le> \<bar>x\<bar>" and hi: "\<bar>x\<bar> < 2 ^ Suc k / 2 ^ 126"
    and u: "u = 2 ^ k / 2 ^ 149"
    and n: "round_half_even (x / u) = n"
    and r: "r = of_int n * u"
    and fin: "r < 2 ^ 128" "- (2 ^ 128) < r"
  shows "to_float32 x = Finite r"
proof -
  have "find_exp 253 \<bar>x\<bar> = k" using k lo hi by (rule find_exp_eq)
  then have "ulp32 x = u" by (simp add: ulp32_def u)
  then show ?thesis using n r fin by (simp add: to_float32_def Let_def)
qed

lemma vref_value: "PH_SENSOR_VREF = Finite (13841203 / 4194304)"
  unfolding PH_SENSOR_VREF_def
  by (rule to_float32_eval [where k = 127 and n = 13841203 and u = "1 / 4194304"])
     (simp_all add: round_half_even_def)

text \<open>The five roundings of the conversion at the raw count 2000.\<close>

lemma conv_2000: "to_float32 2000 = Finite 2000"
  by (rule to_float32_eval [where k = 136 and n = 16384000 and u = "1 / 8192"])
     (simp_all add: round_half_even_def)

lemma mul_2000: "to_float32 (2000 * (13841203 / 4194304)) = Finite 6600"
  by (rule to_float32_eval [where k = 138 and n = 13516800 and u = "1 / 2048"])
     (simp_all add: round_half_even_def)

lemma div_2000: "to_float32 (6600 / 4095) = Finite (13520101 / 8388608)"
  by (rule to_float32_eval [where k = 126 and n = 13520101 and u = "1 / 8388608"])
     (simp_all add: round_half_even_def)

lemma slope_2000: "to_float32 (7 / 2 * (13520101 / 8388608)) = Finite (1478761 / 262144)"
  by (rule to_float32_eval [where k = 128 and n = 11830088 and u = "1 / 2097152"])
     (simp_all add: round_half_even_def)

lemma offset_2000: "to_float32 (1478761 / 262144 + 0) = Finite (1478761 / 262144)"
  by (rule to_float32_eval [where k = 128 and n = 11830088 and u = "1 / 2097152"])
     (simp_all add: round_half_even_def)

lemma ph_unclamped_2000: "ph_unclamped 2000 = Finite (1478761 / 262144)"
  using conv_2000 mul_2000 div_2000 slope_2000 offset_2000
  by (simp add: ph_unclamped_def Let_def vref_value PH_OFFSET_def)

text \<open>The same at a negative raw count and at the largest 32-bit one.\<close>

lemma conv_neg5: "to_float32 (- 5) = Finite (- 5)"
  by (rule to_float32_eval [where k = 128 and n = "- 10485760" and u = "1 / 2097152"])
     (simp_all add: round_half_even_def)

lemma mul_neg5: "to_float32 (- 5 * (13841203 / 4194304)) = Finite (- (33 / 2))"
  by (rule to_float32_eval [where k = 130 and n = "- 8650752" and u = "1 / 524288"])
     (simp_all add: round_half_even_def)

lemma div_neg5: "to_float32 (- (33 / 2) / 4095) = Finite (- (8652865 / 2147483648))"
  by (rule to_float32_eval [where k = 118 and n = "- 8652865" and u = "1 / 2147483648"])
     (simp_all add: round_half_even_def)

lemma slope_neg5:
  "to_float32 (7 / 2 * (- (8652865 / 2147483648))) = Finite (- (7571257 / 536870912))"
  by (rule to_float32_eval [where k = 119 and n = "- 15142514" and u = "1 / 1073741824"])
     (simp_all add: round_half_even_def)

lemma offset_neg5:
  "to_float32 (- (7571257 / 536870912) + 0) = Finite (- (7571257 / 536870912))"
  by (rule to_float32_eval [where k = 119 and n = "- 15142514" and u = "1 / 1073741824"])
     (simp_all add: round_half_even_def)

lemma ph_unclamped_neg5: "ph_unclamped (- 5) = Finite (- (7571257 / 536870912))"
  using conv_neg5 mul_neg5 div_neg5 slope_neg5 offset_neg5
  by (simp add: ph_unclamped_def Let_def vref_value PH_OFFSET_def)

lemma conv_max: "to_float32 2147483647 = Finite 2147483648"
  by (rule to_float32_eval [where k = 156 and n = 16777216 and u = 128])
     (simp_all add: round_half_even_def)

lemma mul_max: "to_float32 (2147483648 * (13841203 / 4194304)) = Finite 7086695936"
  by (rule to_float32_eval [where k = 158 and n = 13841203 and u = 512])
     (simp_all add: round_half_even_def)

lemma div_max: "to_float32 (7086695936 / 4095) = Finite (13844583 / 8)"
  by (rule to_float32_eval [where k = 146 and n = 13844583 and u = "1 / 8"])
     (simp_all add: round_half_even_def)

lemma slope_max: "to_float32 (7 / 2 * (13844583 / 8)) = Finite 6057005"
  by (rule to_float32_eval [where k = 148 and n = 12114010 and u = "1 / 2"])
     (simp_all add: round_half_even_def)

lemma offset_max: "to_float32 (6057005 + 0) = Finite 6057005"
  by (rule to_float32_eval [where k = 148 and n = 12114010 and u = "1 / 2"])
     (simp_all add: round_half_even_def)

lemma ph_unclamped_max: "ph_unclamped 2147483647 = Finite 6057005"
  using conv_max mul_max div_max slope_max offset_max
  by (simp add: ph_unclamped_def Let_def vref_value PH_OFFSET_def)

text \<open>
  The value before clamping is never \<open>NaN\<close>: the count converts to a number, and
  multiplying or dividing by a non-zero constant and adding a constant keep it one,
  infinite at worst.
\<close>

lemma ph_unclamped_not_nan: "ph_unclamped raw \<noteq> NaN"
  unfolding ph_unclamped_def Let_def PH_OFFSET_def vref_value
  by (intro fadd_not_nan fmul_left_not_nan fdiv_not_nan fmul_right_not_nan
      to_float32_not_nan) simp_all

lemma constrain_float_range:
  assumes "x \<noteq> NaN"
  shows "float_le (Finite 0) (constrain_float x (Finite 0) (Finite 14))
       \<and> float_le (constrain_float x (Finite 0) (Finite 14)) (Finite 14)"
  using assms by (cases x) (auto simp add: constrain_float_def float_gt_def)

lemma constrain_float_id:
  assumes "float_le (Finite 0) x" and "float_le x (Finite 14)"
  shows "constrain_float x (Finite 0) (Finite 14) = x"
  using assms by (cases x) (auto simp add: constrain_float_def float_gt_def)

text \<open>
  C6 says that inside the range 0 to 14 the result equals the exact linear function
  \<open>3.5 * (raw * 3.3 / 4095) + PH_OFFSET\<close>. At the raw count 2000 that function is
  \<open>220 / 39\<close>, inside the range, while the code returns \<open>1478761 / 262144\<close>: the
  constant \<open>3.3f\<close> is not 3.3 and every operation rounds.
\<close>

theorem ph_2000_not_exact_linear:
  "ph_adc_to_value 2000 = Finite (1478761 / 262144)
   \<and> float_le (Finite 0) (Finite (7 / 2 * (2000 * (33 / 10) / 4095) + 0))
   \<and> float_le (Finite (7 / 2 * (2000 * (33 / 10) / 4095) + 0)) (Finite 14)
   \<and> ph_adc_to_value 2000 \<noteq> Finite (7 / 2 * (2000 * (33 / 10) / 4095) + 0)"
  by (simp add: ph_adc_to_value_def ph_unclamped_2000 constrain_float_def float_gt_def)

text \<open>
  C6, as the code has it: for every raw input, negative and beyond full scale
  included, \<open>ph_adc_to_value\<close> returns a value from 0 to 14, and where the linear
  expression \<open>3.5f * ((float) raw * 3.3f / 4095.0f) + PH_OFFSET\<close>, evaluated in binary32
  with every operation rounded to nearest, lies in that range, the result is the value
  of that expression.
\<close>

theorem ph_range_and_rounded_linear:
  "float_le (Finite 0) (ph_adc_to_value raw)
   \<and> float_le (ph_adc_to_value raw) (Finite 14)
   \<and> (float_le (Finite 0) (ph_unclamped raw) \<and> float_le (ph_unclamped raw) (Finite 14)
        \<longrightarrow> ph_adc_to_value raw = ph_unclamped raw)"
  using constrain_float_range [OF ph_unclamped_not_nan [of raw]]
  by (simp add: ph_adc_to_value_def constrain_float_id)

text \<open>
  The raw count 2000: the rounded expression is in range and is what is returned. The
  raw count \<open>-5\<close> saturates at 0 and the largest 32-bit count at 14.
\<close>

theorem ph_range_and_rounded_linear_witness:
  "float_le (Finite 0) (ph_unclamped 2000) \<and> float_le (ph_unclamped 2000) (Finite 14)
   \<and> ph_adc_to_value 2000 = Finite (1478761 / 262144)
   \<and> ph_adc_to_value (- 5) = Finite 0
   \<and> ph_adc_to_value 2147483647 = Finite 14"
  using ph_range_and_rounded_linear [of 2000]
  by (simp add: ph_unclamped_2000 ph_adc_to_value_def ph_unclamped_neg5 ph_unclamped_max
      constrain_float_def float_gt_def)

section \<open>Reading the sensors\<close>

text \<open>
  C10. Whenever the temperature or the humidity reading is \<open>NaN\<close>, \<open>sensors_read\<close>
  returns false, sets \<open>valid\<close> to false and has written only \<open>temperature\<close>,
  \<open>humidity\<close> and \<open>valid\<close>: \<open>soilMoisture\<close>, \<open>phValue\<close>, \<open>lightLevel\<close>, \<open>rainLevel\<close>
  and \<open>isRaining\<close> hold what the structure held before the call.
\<close>

theorem sensors_read_nan_keeps_stale_fields:
  assumes "isnan (dht_readTemperature hw) \<or> isnan (dht_readHumidity hw)"
  shows "sensors_read ph_conv hw data =
           (False,
            data\<lparr>temperature := dht_readTemperature hw, humidity := dht_readHumidity hw,
                 valid := False\<rparr>,
            [SerialPrintln ''[SENSORS] DHT22 read failed''])
       \<and> soilMoisture (fst (snd (sensors_read ph_conv hw data))) = soilMoisture data
       \<and> phValue (fst (snd (sensors_read ph_conv hw data))) = phValue data
       \<and> lightLevel (fst (snd (sensors_read ph_conv hw data))) = lightLevel data
       \<and> rainLevel (fst (snd (sensors_read ph_conv hw data))) = rainLevel data
       \<and> isRaining (fst (snd (sensors_read ph_conv hw data))) = isRaining data"
  using assms by (auto simp add: sensors_read_def Let_def)

text \<open>
  The structure held soil moisture 55 and rain from an earlier call; after the failed
  read it still does, although the pins now deliver 2000.
\<close>

theorem sensors_read_nan_keeps_stale_fields_witness:
  "isnan (dht_readTemperature dht_failure)
   \<and> sensors_read (\<lambda>raw. Finite 7) dht_failure (reading 25 50 55 True) =
       (False,
        \<lparr>temperature = NaN, humidity = Finite 50, soilMoisture = 55, phValue = Finite 6,
         lightLevel = 400, rainLevel = 500, isRaining = True, valid = False\<rparr>,
        [SerialPrintln ''[SENSORS] DHT22 read failed''])"
  using sensors_read_nan_keeps_stale_fields
    [of dht_failure "\<lambda>raw. Finite 7" "reading 25 50 55 True"]
  by (simp add: dht_failure_def reading_def isnan_def)

end
